theory Spec2Isabelle
  imports Main "HOL-Library.Signed_Division"
begin

section \<open>Integers, packets and the stream descriptor\<close>

text \<open>
  The reader of \<^verbatim>\<open>FFmpeg/FFmpegFile.cpp\<close> works on \<^verbatim>\<open>int\<close> and \<^verbatim>\<open>int64_t\<close> values.
  Signed overflow is undefined in C++, so there is no wrap-around to write out: the values
  are modelled as \<^typ>\<open>int\<close>, and every statement below is about runs that stay inside the
  machine ranges. The C++ operator \<^verbatim>\<open>/\<close> on integers truncates towards zero; that is
  \<open>sdiv\<close> on \<^typ>\<open>int\<close> (division by zero, undefined in C++, is 0 in HOL).
\<close>

definition AV_NOPTS_VALUE :: int where
  "AV_NOPTS_VALUE = - (2 ^ 63)"

definition AV_TIME_BASE :: int where
  "AV_TIME_BASE = 1000000"

record AVPacket =
  pts :: int
  dts :: int
  stream_index :: int

text \<open>The pointer to member \<^verbatim>\<open>int64_t AVPacket::*_timestampField\<close> selects one of two fields.\<close>

datatype TimestampField = PTS | DTS

fun timestamp :: "TimestampField \<Rightarrow> AVPacket \<Rightarrow> int" where
  "timestamp PTS p = pts p"
| "timestamp DTS p = dts p"

datatype AVPixelFormat =
    AV_PIX_FMT_YUV420P | AV_PIX_FMT_YUV422P | AV_PIX_FMT_YUV444P | AV_PIX_FMT_YUV440P
  | AV_PIX_FMT_YUVJ420P | AV_PIX_FMT_YUVJ422P | AV_PIX_FMT_YUVJ444P | AV_PIX_FMT_YUVJ440P
  | AV_PIX_FMT_RGB24 | AV_PIX_FMT_RGBA | AV_PIX_FMT_RGB48LE | AV_PIX_FMT_RGBA64LE
  | AV_PIX_FMT_OTHER nat

text \<open>
  What the container library reports for one stream of the container: the fields of
  \<^verbatim>\<open>AVStream\<close> and of its codec context that the reader looks at, and the answers of the
  library calls made while the stream is opened.
\<close>

record AVStream =
  has_codec :: bool
  codec_type_video :: bool
  decoder_found :: bool
  codec_open_ok :: bool
  pix_fmt :: AVPixelFormat
  bits_per_raw_sample :: int
  nb_components :: int
  bits_per_pixel :: int
  codec_width :: int
  codec_height :: int
  r_frame_rate_num :: int
  r_frame_rate_den :: int
  time_base_num :: int
  time_base_den :: int
  start_time :: int
  nb_frames :: int
  duration :: int

text \<open>A scaler handle remembers what it was built for and how its colour details were set.\<close>

record SwsContext =
  srcFormat :: AVPixelFormat
  srcW :: int
  srcH :: int
  dstFormat :: AVPixelFormat
  dstW :: int
  dstH :: int

text \<open>
  \<^verbatim>\<open>FFmpegFile::Stream\<close>. The header that declares it is not among the sources; the
  fields are the ones the functions of \<^verbatim>\<open>FFmpegFile.cpp\<close> read and write. \<open>isYUV\<close> and
  \<open>isRec709Format\<close> are member functions of the header: their values are taken as given.
\<close>

record Stream =
  idx :: int
  avstream :: AVStream
  fpsNum :: int
  fpsDen :: int
  startPTS :: int
  frames :: int
  bitDepth :: int
  numberOfComponents :: int
  outputPixelFormat :: AVPixelFormat
  width :: int
  height :: int
  ptsSeen :: bool
  timestampField :: TimestampField
  decodeNextFrameIn :: int
  decodeNextFrameOut :: int
  accumDecodeLatency :: int
  resetConvertCtx :: bool
  convertCtx :: "SwsContext option"
  colorMatrixTypeOverride :: int
  isYUV :: bool
  isRec709Format :: bool

section \<open>Frame and timestamp mapping\<close>

text \<open>
  Modelled from the spec: \<^verbatim>\<open>Stream::frameToPts\<close> and \<^verbatim>\<open>Stream::ptsToFrame\<close> are defined
  in the header \<^verbatim>\<open>FFmpegFile.h\<close>, which is not among the sources. The spec gives
  \<^verbatim>\<open>frame_to_pts(f) = (f * fps_den * tb_den) / (fps_num * tb_num) + start_pts\<close> and
  \<^verbatim>\<open>pts_to_frame(pts) = ((pts - start_pts) * fps_num * tb_num) / (fps_den * tb_den)\<close>,
  both with truncating integer division.
\<close>

definition frameToPts :: "Stream \<Rightarrow> int \<Rightarrow> int" where
  "frameToPts s f =
     (f * fpsDen s * time_base_den (avstream s)) sdiv (fpsNum s * time_base_num (avstream s))
       + startPTS s"

definition ptsToFrame :: "Stream \<Rightarrow> int \<Rightarrow> int" where
  "ptsToFrame s t =
     ((t - startPTS s) * fpsNum s * time_base_num (avstream s))
       sdiv (fpsDen s * time_base_den (avstream s))"

text \<open>
  Modelled from the spec: the constructor of \<^verbatim>\<open>Stream\<close> is in the header as well. The
  spec's data model gives the defaults: frame rate 1/1, both cursors -1 ("unknown"), no
  latency, timestamps from PTS, no PTS seen, no colour matrix override, no converter.
\<close>

definition new_Stream :: "AVStream \<Rightarrow> Stream" where
  "new_Stream av =
     \<lparr> idx = 0, avstream = av, fpsNum = 1, fpsDen = 1, startPTS = 0, frames = 0,
       bitDepth = 0, numberOfComponents = 0, outputPixelFormat = AV_PIX_FMT_RGB24,
       width = 0, height = 0, ptsSeen = False, timestampField = PTS,
       decodeNextFrameIn = - 1, decodeNextFrameOut = - 1, accumDecodeLatency = 0,
       resetConvertCtx = False, convertCtx = None, colorMatrixTypeOverride = 0,
       isYUV = False, isRec709Format = False \<rparr>"

text \<open>Two streams used as concrete inputs below.\<close>

definition example_avstream :: AVStream where
  "example_avstream =
     \<lparr> has_codec = True, codec_type_video = True, decoder_found = True, codec_open_ok = True,
       pix_fmt = AV_PIX_FMT_YUV420P, bits_per_raw_sample = 8, nb_components = 3,
       bits_per_pixel = 12, codec_width = 320, codec_height = 240,
       r_frame_rate_num = 24, r_frame_rate_den = 1, time_base_num = 1, time_base_den = 24,
       start_time = 0, nb_frames = 10, duration = 10 \<rparr>"

definition example_stream :: Stream where
  "example_stream =
     (new_Stream example_avstream)
       \<lparr> fpsNum := 24, fpsDen := 1, frames := 10, bitDepth := 8, numberOfComponents := 3,
         width := 320, height := 240, isYUV := True \<rparr>"

text \<open>A Matroska-like stream: ticks of one millisecond, 30000/1001 frames per second.\<close>

definition ntsc_ms_stream :: Stream where
  "ntsc_ms_stream =
     example_stream
       \<lparr> avstream := example_avstream \<lparr> time_base_num := 1, time_base_den := 1000,
                                       r_frame_rate_num := 30000, r_frame_rate_den := 1001 \<rparr>,
         fpsNum := 30000, fpsDen := 1001 \<rparr>"

section \<open>Stream metadata: start time and frame count\<close>

text \<open>
  While a stream is opened the reader may have to look at packets of the file. The
  answers of the container library are given by a record: whether the seek to the first
  key frame succeeds, the packets read after it until a read fails (searching the start
  PTS), and the packets read after the seek to the end of the file until a read fails
  (measuring the last PTS).
\<close>

record probe =
  start_seek_ok :: bool
  start_packets :: "AVPacket list"
  end_packets :: "AVPacket list"

text \<open>
  The \<^verbatim>\<open>do ... while\<close> loop of \<^verbatim>\<open>getStreamStartTime\<close>: a failed read (the end of the list)
  leaves the loop; a packet of the stream sets \<open>startPTS\<close>; the loop goes on while
  \<open>startPTS\<close> is \<^verbatim>\<open>AV_NOPTS_VALUE\<close>.
\<close>

fun search_start_pts :: "int \<Rightarrow> AVPacket list \<Rightarrow> int \<Rightarrow> int" where
  "search_start_pts i [] start = start"
| "search_start_pts i (p # ps) start =
     (let start' = (if stream_index p = i then pts p else start)
      in if start' = AV_NOPTS_VALUE then search_start_pts i ps start' else start')"

definition getStreamStartTime :: "probe \<Rightarrow> Stream \<Rightarrow> int" where
  "getStreamStartTime pr s =
     (let start0 = start_time (avstream s);
          start1 = (if start0 = AV_NOPTS_VALUE
                    then (if start_seek_ok pr
                          then search_start_pts (idx s) (start_packets pr) start0
                          else start0)
                    else start0)
      in if start1 = AV_NOPTS_VALUE then 0 else start1)"

text \<open>The \<^verbatim>\<open>while\<close> loop of \<^verbatim>\<open>getStreamFrames\<close> that extends the maximum PTS.\<close>

fun scan_max_pts :: "int \<Rightarrow> AVPacket list \<Rightarrow> int \<Rightarrow> int" where
  "scan_max_pts i [] maxPts = maxPts"
| "scan_max_pts i (p # ps) maxPts =
     scan_max_pts i ps
       (if stream_index p = i \<and> pts p \<noteq> AV_NOPTS_VALUE \<and> pts p > maxPts then pts p else maxPts)"

text \<open>
  The frame count derived from the duration of the container, before the comparison with
  the frame count of the stream.
\<close>

definition duration_frames :: "int \<Rightarrow> Stream \<Rightarrow> int" where
  "duration_frames ctx_duration s =
     (let divisor = AV_TIME_BASE * fpsDen s
      in ((ctx_duration - 1) * fpsNum s + divisor - 1) sdiv divisor)"

text \<open>
  \<^verbatim>\<open>getStreamFrames\<close>. The test \<^verbatim>\<open>std::abs((double)(frames - streamFrames)) <= 1\<close> is made on
  a \<^verbatim>\<open>double\<close>; the conversion of an \<^verbatim>\<open>int64_t\<close> keeps the values -1, 0 and 1 and maps no
  other value to them, so the test is the one on integers.
\<close>

definition getStreamFrames :: "int \<Rightarrow> probe \<Rightarrow> Stream \<Rightarrow> int" where
  "getStreamFrames ctx_duration pr s =
     (let frames0 = (0 :: int);
          frames1 = (if ctx_duration \<noteq> 0
                     then (let fr = duration_frames ctx_duration s;
                               streamFrames = nb_frames (avstream s)
                           in if streamFrames > 0 \<and> \<bar>fr - streamFrames\<bar> \<le> 1
                              then streamFrames else fr)
                     else frames0);
          frames2 = (if frames1 = 0 then nb_frames (avstream s) else frames1);
          frames3 = (if frames2 = 0
                     then (duration (avstream s) * time_base_num (avstream s) * fpsNum s)
                            sdiv (time_base_den (avstream s) * fpsDen s)
                     else frames2);
          frames4 = (if frames3 = 0
                     then 1 + ptsToFrame s (scan_max_pts (idx s) (end_packets pr) (startPTS s))
                     else frames3)
      in frames4)"

section \<open>Opening the container\<close>

text \<open>
  Modelled from the spec: \<^verbatim>\<open>setError\<close> and \<^verbatim>\<open>setInternalError\<close> are defined in the header.
  The spec says that an error is stored as a message, that errors of the native library
  are translated (here: the error code is kept) behind a prefix naming the failed
  operation, and that a reader with an open failure is in invalid state.
\<close>

datatype error_text = NoError | ErrorText string | InternalError string int

record Container =
  open_input_error :: int
  find_stream_info_error :: int
  ctx_duration :: int
  metadata :: "(string \<times> string) list option"
  av_streams :: "(AVStream \<times> probe) list"

text \<open>\<^verbatim>\<open>FFmpegFile\<close>: \<open>data\<close> is the size in bytes of the output buffer, \<open>None\<close> for null.\<close>

record FFmpegFile =
  filename :: string
  avcontext :: "Container option"
  streams :: "Stream list"
  errorMsg :: error_text
  invalidState :: bool
  data :: "int option"

definition setError :: "string \<Rightarrow> FFmpegFile \<Rightarrow> FFmpegFile" where
  "setError msg r = r \<lparr> errorMsg := ErrorText msg, invalidState := True \<rparr>"

definition setInternalError :: "int \<Rightarrow> string \<Rightarrow> FFmpegFile \<Rightarrow> FFmpegFile" where
  "setInternalError err prefix r = r \<lparr> errorMsg := InternalError prefix err, invalidState := True \<rparr>"

text \<open>
  One turn of the loop over the streams of the container, up to the point where the stream
  is saved: \<open>None\<close> when the turn ends in \<^verbatim>\<open>continue\<close>. The output pixel format is the
  one of the branch for libavutil 53.6.0 and later. The thread count and the codec flags set
  before the decoder is opened, and the pixel aspect ratio (a \<^verbatim>\<open>double\<close>), are left
  out: nothing below reads them.
\<close>

definition open_stream :: "int \<Rightarrow> int \<Rightarrow> AVStream \<times> probe \<Rightarrow> Stream option" where
  "open_stream ctx_dur i entry =
     (let av = fst entry; pr = snd entry in
      if \<not> has_codec av then None
      else if \<not> codec_type_video av then None
      else if \<not> decoder_found av then None
      else if \<not> codec_open_ok av then None
      else
        let s0 = (new_Stream av) \<lparr> idx := i \<rparr>;
            s1 = s0 \<lparr> bitDepth := bits_per_raw_sample av \<rparr>;
            s2 = s1 \<lparr> numberOfComponents := nb_components av \<rparr>;
            s3 = (if 3 > numberOfComponents s2 then s2 \<lparr> numberOfComponents := 3 \<rparr> else s2);
            s4 = (if 0 = bitDepth s3
                  then s3 \<lparr> bitDepth := bits_per_pixel av sdiv numberOfComponents s3 \<rparr>
                  else s3);
            s5 = (if bitDepth s4 > 8
                  then s4 \<lparr> outputPixelFormat :=
                             (if 4 = numberOfComponents s4 then AV_PIX_FMT_RGBA64LE
                              else AV_PIX_FMT_RGB48LE) \<rparr>
                  else s4 \<lparr> outputPixelFormat :=
                             (if 4 = numberOfComponents s4 then AV_PIX_FMT_RGBA
                              else AV_PIX_FMT_RGB24) \<rparr>);
            s6 = (if r_frame_rate_num av \<noteq> 0 \<and> r_frame_rate_den av \<noteq> 0
                  then s5 \<lparr> fpsNum := r_frame_rate_num av, fpsDen := r_frame_rate_den av \<rparr>
                  else s5);
            s7 = s6 \<lparr> width := codec_width av, height := codec_height av \<rparr>;
            s8 = s7 \<lparr> startPTS := getStreamStartTime pr s7 \<rparr>;
            s9 = s8 \<lparr> frames := getStreamFrames ctx_dur pr s8 \<rparr>
        in Some s9)"

text \<open>
  The size of the output buffer allocated for the first stream:
  \<^verbatim>\<open>new unsigned char[stream->_width * stream->_height * 3 * pixelDepth]\<close>.
\<close>

definition allocated_size :: "Stream \<Rightarrow> int" where
  "allocated_size s =
     (let pixelDepth = (if bitDepth s > 8 then 2 else 1 :: int)
      in width s * height s * 3 * pixelDepth)"

text \<open>
  The loop over the streams. The local flag \<^verbatim>\<open>unsuported_codec\<close> is carried through the
  loop as the source has it: no turn assigns it.
\<close>

fun open_loop :: "int \<Rightarrow> int \<Rightarrow> (AVStream \<times> probe) list \<Rightarrow> bool \<Rightarrow> FFmpegFile \<Rightarrow> bool \<times> FFmpegFile" where
  "open_loop ctx_dur i [] unsuported_codec r = (unsuported_codec, r)"
| "open_loop ctx_dur i (entry # rest) unsuported_codec r =
     (case open_stream ctx_dur i entry of
        None \<Rightarrow> open_loop ctx_dur (i + 1) rest unsuported_codec r
      | Some s \<Rightarrow>
          (let r1 = (if streams r = [] then r \<lparr> data := Some (allocated_size s) \<rparr> else r);
               r2 = r1 \<lparr> streams := streams r1 @ [s] \<rparr>
           in open_loop ctx_dur (i + 1) rest unsuported_codec r2))"

text \<open>The constructor \<^verbatim>\<open>FFmpegFile::FFmpegFile(filename)\<close>, given what the file holds.\<close>

definition open_file :: "string \<Rightarrow> Container \<Rightarrow> FFmpegFile" where
  "open_file name c =
     (let r0 = \<lparr> filename = name, avcontext = None, streams = [], errorMsg = NoError,
                 invalidState = False, data = None \<rparr>
      in if name = [] then r0 \<lparr> invalidState := True \<rparr>
         else if open_input_error c < 0 then setInternalError (open_input_error c) [] r0
         else
           let r1 = r0 \<lparr> avcontext := Some c \<rparr>
           in if find_stream_info_error c < 0
              then setInternalError (find_stream_info_error c) [] r1
              else
                let unsuported_codec = False;
                    res = open_loop (ctx_duration c) 0 (av_streams c) unsuported_codec r1;
                    r2 = snd res
                in if streams r2 = []
                   then setError (if fst res then ''unsupported codec...''
                                  else ''unable to find video stream'') r2
                   else r2)"

section \<open>Metadata accessors\<close>





definition reader_isYUV :: "FFmpegFile \<Rightarrow> bool" where
  "reader_isYUV r = (case streams r of [] \<Rightarrow> False | s # _ \<Rightarrow> isYUV s)"



section \<open>Source colourspace\<close>

text \<open>
  \<^verbatim>\<open>av_dict_get\<close> and \<^verbatim>\<open>strncasecmp\<close> belong to libavutil and to the C library. As
  libavutil documents and implements it, \<^verbatim>\<open>av_dict_get(m, key, NULL, flags)\<close> returns
  the first entry whose key matches \<open>key\<close>; characters are compared through \<^verbatim>\<open>av_toupper\<close>
  (ASCII letters only) unless the flag \<^verbatim>\<open>AV_DICT_MATCH_CASE\<close> is given, and with
  \<^verbatim>\<open>AV_DICT_IGNORE_SUFFIX\<close> an entry matches as soon as \<open>key\<close> is a prefix of its key.
  The reader passes \<^verbatim>\<open>AV_DICT_IGNORE_SUFFIX\<close> alone. \<open>match_case\<close> is the flag
  \<^verbatim>\<open>AV_DICT_MATCH_CASE\<close>; it is a parameter so that the comparison the reader does not
  ask for can be looked at as well.
\<close>

definition av_toupper :: "char \<Rightarrow> char" where
  "av_toupper c =
     (let n = (of_char c :: nat)
      in if 97 \<le> n \<and> n \<le> 122 then char_of (n - 32) else c)"

definition key_matches :: "bool \<Rightarrow> string \<Rightarrow> string \<Rightarrow> bool" where
  "key_matches match_case key s =
     (if match_case then take (length key) s = key
      else map av_toupper (take (length key) s) = map av_toupper key)"

definition av_dict_get :: "bool \<Rightarrow> (string \<times> string) list \<Rightarrow> string \<Rightarrow> (string \<times> string) option" where
  "av_dict_get match_case m key = find (\<lambda>entry. key_matches match_case key (fst entry)) m"

text \<open>\<^verbatim>\<open>!strncasecmp(v, lit, n)\<close> for a literal \<open>lit\<close> of \<open>n\<close> characters.\<close>

definition strncasecmp_eq :: "string \<Rightarrow> string \<Rightarrow> nat \<Rightarrow> bool" where
  "strncasecmp_eq v lit n = (map av_toupper (take n v) = map av_toupper (take n lit))"

text \<open>
  \<^verbatim>\<open>FFmpegFile::getColorspace\<close>. After a failed look-up of the mixed-case key the source
  calls \<^verbatim>\<open>av_dict_get\<close> with the lower-case key and drops what it returns: \<open>t\<close> is not
  assigned. The two dropped calls are kept as the bindings \<open>dropped1\<close> and \<open>dropped2\<close>.
\<close>

definition getColorspace :: "bool \<Rightarrow> FFmpegFile \<Rightarrow> string" where
  "getColorspace match_case r =
     (let fallback = (if reader_isYUV r then ''Gamma2.2'' else ''Gamma1.8'')
      in case avcontext r of
           None \<Rightarrow> fallback
         | Some c \<Rightarrow>
            (case metadata c of
               None \<Rightarrow> fallback
             | Some m \<Rightarrow>
                (let t = av_dict_get match_case m ''uk.co.thefoundry.Colorspace'';
                     dropped1 = (if t = None
                                 then av_dict_get match_case m ''uk.co.thefoundry.colorspace''
                                 else None)
                 in case t of
                      Some entry \<Rightarrow> snd entry
                    | None \<Rightarrow>
                       (let t2 = av_dict_get match_case m ''com.arri.camera.ColorGammaSxS'';
                            dropped2 = (if t2 = None
                                        then av_dict_get match_case m ''com.arri.camera.colorgammasxs''
                                        else None)
                        in case t2 of
                             None \<Rightarrow> fallback
                           | Some entry \<Rightarrow>
                               if strncasecmp_eq (snd entry) ''LOG-C'' 5 then ''AlexaV3LogC''
                               else if strncasecmp_eq (snd entry) ''REC-709'' 7 then ''rec709''
                               else fallback))))"






section \<open>The cached converter\<close>

text \<open>
  The answers of libswscale to one call of \<^verbatim>\<open>getConvertCtx\<close>: whether \<^verbatim>\<open>sws_getContext\<close>
  returns a context, and what \<^verbatim>\<open>sws_setColorspaceDetails\<close> returns (-1 when the
  conversion is not supported).
\<close>

record sws_answers =
  sws_getContext_ok :: bool
  sws_setColorspaceDetails_result :: int

text \<open>
  \<^verbatim>\<open>assert\<close> aborts the process when its condition is false, unless the file is compiled
  with \<^verbatim>\<open>NDEBUG\<close>; then it does nothing.
\<close>

datatype 'a asserted = AssertionFailed | Value 'a

definition normalise_pix_fmt :: "AVPixelFormat \<Rightarrow> AVPixelFormat" where
  "normalise_pix_fmt f =
     (case f of
        AV_PIX_FMT_YUVJ420P \<Rightarrow> AV_PIX_FMT_YUV420P
      | AV_PIX_FMT_YUVJ422P \<Rightarrow> AV_PIX_FMT_YUV422P
      | AV_PIX_FMT_YUVJ444P \<Rightarrow> AV_PIX_FMT_YUV444P
      | AV_PIX_FMT_YUVJ440P \<Rightarrow> AV_PIX_FMT_YUV440P
      | _ \<Rightarrow> f)"

text \<open>
  \<^verbatim>\<open>FFmpegFile::Stream::getConvertCtx\<close>: the returned handle and the stream afterwards.
  The colour matrix and the range handed to \<^verbatim>\<open>sws_setColorspaceDetails\<close> do not change
  what the function returns or stores, only the pixels converted later; the call is
  represented by its result.
\<close>

definition getConvertCtx ::
  "bool \<Rightarrow> sws_answers \<Rightarrow> AVPixelFormat \<Rightarrow> int \<Rightarrow> int \<Rightarrow> int \<Rightarrow> AVPixelFormat \<Rightarrow> int \<Rightarrow> int \<Rightarrow>
   Stream \<Rightarrow> (SwsContext option \<times> Stream) asserted" where
  "getConvertCtx ndebug ans srcPixelFormat srcWidth srcHeight srcColorRange
       dstPixelFormat dstWidth dstHeight s =
     (let s1 = (if resetConvertCtx s
                then s \<lparr> resetConvertCtx := False, convertCtx := None \<rparr>
                else s)
      in if convertCtx s1 = None
         then
           (let fmt = normalise_pix_fmt srcPixelFormat;
                s2 = s1 \<lparr> convertCtx :=
                            (if sws_getContext_ok ans
                             then Some \<lparr> srcFormat = fmt, srcW = srcWidth, srcH = srcHeight,
                                         dstFormat = dstPixelFormat, dstW = dstWidth,
                                         dstH = dstHeight \<rparr>
                             else None) \<rparr>
            in if \<not> isYUV s2 then Value (convertCtx s2, s2)
               else
                 (let result = sws_setColorspaceDetails_result ans
                  in if \<not> ndebug \<and> \<not> (result \<noteq> - 1) then AssertionFailed
                     else Value (convertCtx s2, s2)))
         else Value (convertCtx s1, s1))"

section \<open>Random-access decode\<close>

text \<open>
  \<^verbatim>\<open>FFmpegFile::decode\<close> talks to the container and to the decoder in every turn of its
  loop. One turn makes at most one call of \<^verbatim>\<open>av_read_frame\<close>, at most one of
  \<^verbatim>\<open>avcodec_decode_video2\<close>, at most one of \<^verbatim>\<open>seekFrame\<close> and reads the codec delay at
  most once, so the answers of the libraries to one turn are one record, and a run of the
  loop is driven by the list of these records. Answers that a turn does not ask for are
  ignored. \<^verbatim>\<open>getCodecDelay\<close> is a member function of the header; its value is an answer
  like the others.
\<close>

definition AVERROR_EOF :: int where
  "AVERROR_EOF = - 541478725"

record answers =
  read_error :: int
  read_packet :: AVPacket
  seek_error :: int
  decode_error :: int
  frameDecoded :: int
  codecDelay :: int

text \<open>
  The state of one call: the reader, the stream the call works on (the pointee of
  \<^verbatim>\<open>Stream* stream = _streams[0]\<close>) and the local variables. The last three fields are
  not in the source: they record the frames handed to \<^verbatim>\<open>seekFrame\<close> (latest first), the
  number of switches from PTS to DTS and the number of reseeks paid from the retry budget.
\<close>

record decode_state =
  reader :: FFmpegFile
  stream :: Stream
  frame :: int
  retriesRemaining :: int
  awaitingFirstDecodeAfterSeek :: bool
  lastSeekedFrame :: int
  hasPicture :: bool
  seekLog :: "int list"
  dtsSwitches :: nat
  retrySeeks :: nat

datatype flow = Continue | Break | ReturnFalse

text \<open>
  \<^verbatim>\<open>seekFrame\<close>: flushes the decoder, seeks backwards to \<open>frameToPts frame\<close> and reports
  whether the seek succeeded.
\<close>

definition seekFrame :: "int \<Rightarrow> int \<Rightarrow> decode_state \<Rightarrow> bool \<times> decode_state" where
  "seekFrame f err st =
     (let st1 = st \<lparr> seekLog := f # seekLog st \<rparr>
      in if err < 0
         then (False, st1 \<lparr> reader := setInternalError err ''FFmpeg Reader failed to seek frame: ''
                                          (reader st1) \<rparr>)
         else (True, st1))"

text \<open>The seek that ends a failed landing; a failed seek breaks out of the loop.\<close>

definition resync_seek :: "answers \<Rightarrow> decode_state \<Rightarrow> flow \<times> decode_state" where
  "resync_seek a st =
     (let res = seekFrame (lastSeekedFrame st) (seek_error a) st
      in (if fst res then Continue else Break, snd res))"

text \<open>
  Synchronising the frame indices on the first packet of the stream after a seek
  (\<^verbatim>\<open>lastSeekedFrame >= 0\<close>).
\<close>

definition resync :: "answers \<Rightarrow> AVPacket \<Rightarrow> decode_state \<Rightarrow> flow \<times> decode_state" where
  "resync a p st =
     (let s = stream st;
          ts = timestamp (timestampField s) p;
          landingFrame = ptsToFrame s ts
      in if ts = AV_NOPTS_VALUE \<or> landingFrame > lastSeekedFrame st
         then
           (let st1 = st \<lparr> lastSeekedFrame := lastSeekedFrame st - 1 \<rparr>
            in if lastSeekedFrame st1 < 0
               then
                 (if timestampField s = PTS \<and> \<not> ptsSeen s
                  then resync_seek a
                         (st1 \<lparr> stream := s \<lparr> timestampField := DTS \<rparr>,
                                lastSeekedFrame := frame st1,
                                dtsSwitches := Suc (dtsSwitches st1) \<rparr>)
                  else (Break,
                        st1 \<lparr> reader := setError
                          ''FFmpeg Reader failed to find timing reference frame, possible file corruption''
                          (reader st1) \<rparr>))
               else resync_seek a st1)
         else (Continue,
               st \<lparr> stream := s \<lparr> decodeNextFrameOut := landingFrame,
                                   decodeNextFrameIn := landingFrame \<rparr>,
                    lastSeekedFrame := - 1 \<rparr>))"

text \<open>The seek that recovers from a decode stall.\<close>

definition stall_seek :: "answers \<Rightarrow> int \<Rightarrow> decode_state \<Rightarrow> flow \<times> decode_state" where
  "stall_seek a seekTargetFrame st =
     (let st1 = st \<lparr> lastSeekedFrame := seekTargetFrame,
                     stream := (stream st) \<lparr> decodeNextFrameIn := - 1, decodeNextFrameOut := - 1,
                                             accumDecodeLatency := 0 \<rparr>,
                     awaitingFirstDecodeAfterSeek := True \<rparr>;
          res = seekFrame seekTargetFrame (seek_error a) st1
      in (if fst res then Continue else Break, snd res))"

definition use_retry :: "decode_state \<Rightarrow> decode_state" where
  "use_retry st = st \<lparr> retriesRemaining := retriesRemaining st - 1,
                       retrySeeks := Suc (retrySeeks st) \<rparr>"

definition stall_recovery :: "answers \<Rightarrow> decode_state \<Rightarrow> flow \<times> decode_state" where
  "stall_recovery a st =
     (if awaitingFirstDecodeAfterSeek st
      then
        (if decodeNextFrameOut (stream st) > 0
         then stall_seek a (decodeNextFrameOut (stream st) - 1) st
         else if retriesRemaining st > 0
         then stall_seek a (frame st) (use_retry st)
         else (Break,
               st \<lparr> reader := setError
                 ''FFmpeg Reader failed to find decode reference frame, possible file corruption''
                 (reader st) \<rparr>))
      else
        (if retriesRemaining st > 0
         then stall_seek a (frame st) (use_retry st)
         else (Break,
               st \<lparr> reader := setError
                 ''FFmpeg Reader detected decoding stall, possible file corruption''
                 (reader st) \<rparr>)))"

text \<open>
  The end of the loop body, from \<^verbatim>\<open>if (frameDecoded)\<close> on. The conversion of the decoded
  picture into the output buffer (\<^verbatim>\<open>getConvertCtx\<close>, \<^verbatim>\<open>sws_scale\<close>) writes pixels and the
  cached converter only; the cursors do not depend on it and it is left out here.
\<close>

definition after_decode :: "answers \<Rightarrow> bool \<Rightarrow> int \<Rightarrow> decode_state \<Rightarrow> flow \<times> decode_state" where
  "after_decode a decodeAttempted frameDec st =
     (if frameDec \<noteq> 0
      then
        (let st1 = st \<lparr> awaitingFirstDecodeAfterSeek := False \<rparr>;
             st2 = (if decodeNextFrameOut (stream st1) = frame st1
                    then st1 \<lparr> hasPicture := True \<rparr> else st1)
         in (Continue,
             st2 \<lparr> stream := (stream st2)
                      \<lparr> decodeNextFrameOut := decodeNextFrameOut (stream st2) + 1 \<rparr> \<rparr>))
      else if decodeAttempted
      then
        (let st1 = st \<lparr> stream := (stream st)
                          \<lparr> accumDecodeLatency := accumDecodeLatency (stream st) + 1 \<rparr> \<rparr>
         in if accumDecodeLatency (stream st1) > codecDelay a
            then stall_recovery a st1
            else (Continue, st1))
      else (Continue, st))"

text \<open>A packet with a valid PTS records that a PTS has been seen for the stream.\<close>

definition mark_pts :: "AVPacket \<Rightarrow> decode_state \<Rightarrow> decode_state" where
  "mark_pts p st =
     (if pts p \<noteq> AV_NOPTS_VALUE
      then st \<lparr> stream := (stream st) \<lparr> ptsSeen := True \<rparr> \<rparr> else st)"

text \<open>A packet of the video stream was read.\<close>

definition feed_packet :: "answers \<Rightarrow> AVPacket \<Rightarrow> decode_state \<Rightarrow> flow \<times> decode_state" where
  "feed_packet a p st =
     (let st1 = mark_pts p st;
          res = (if lastSeekedFrame st1 \<ge> 0 then resync a p st1 else (Continue, st1));
          st2 = snd res
      in if fst res \<noteq> Continue then res
         else if lastSeekedFrame st2 < 0
         then
           (let st3 = st2 \<lparr> stream := (stream st2)
                              \<lparr> decodeNextFrameIn := decodeNextFrameIn (stream st2) + 1 \<rparr> \<rparr>
            in if decode_error a < 0
               then (Break,
                     st3 \<lparr> reader := setInternalError (decode_error a)
                                        ''FFmpeg Reader failed to decode frame: '' (reader st3) \<rparr>)
               else after_decode a True (frameDecoded a) st3)
         else after_decode a False 0 st2)"

text \<open>One turn of the \<^verbatim>\<open>do ... while (!hasPicture)\<close> loop.\<close>

definition decode_iter :: "bool \<Rightarrow> answers \<Rightarrow> decode_state \<Rightarrow> flow \<times> decode_state" where
  "decode_iter loadNearest a st =
     (let s = stream st
      in if decodeNextFrameIn s < frames s
         then
           (if read_error a = AVERROR_EOF
            then
              (let st1 = st \<lparr> stream := s \<lparr> frames := decodeNextFrameIn s \<rparr> \<rparr>
               in if loadNearest
                  then
                    (let f = frames (stream st1) - 1;
                         st2 = st1 \<lparr> frame := f, lastSeekedFrame := f,
                                     stream := (stream st1)
                                       \<lparr> decodeNextFrameIn := - 1, decodeNextFrameOut := - 1,
                                         accumDecodeLatency := 0 \<rparr>,
                                     awaitingFirstDecodeAfterSeek := True \<rparr>;
                         res = seekFrame f (seek_error a) st2
                     in (if fst res then Continue else ReturnFalse, snd res))
                  else (Continue, st1))
            else if read_error a < 0
            then (Break,
                  st \<lparr> reader := setInternalError (read_error a)
                                    ''FFmpeg Reader failed to read frame: '' (reader st) \<rparr>)
            else if stream_index (read_packet a) = idx s
            then feed_packet a (read_packet a) st
            else after_decode a False 0 st)
         else
           (if decode_error a < 0
            then (Break,
                  st \<lparr> reader := setInternalError (decode_error a)
                                    ''FFmpeg Reader failed to decode frame: '' (reader st) \<rparr>)
            else after_decode a True (frameDecoded a) st))"

text \<open>
  The call works on the stream through a pointer; when it returns, the reader's first
  stream is the stream the call has worked on.
\<close>

definition store_stream :: "decode_state \<Rightarrow> decode_state" where
  "store_stream st =
     st \<lparr> reader := (reader st) \<lparr> streams := stream st # tl (streams (reader st)) \<rparr> \<rparr>"

text \<open>What follows the loop: a failed read resets the next frame expected out.\<close>

definition finish :: "decode_state \<Rightarrow> decode_state" where
  "finish st =
     store_stream
       (if \<not> hasPicture st
        then st \<lparr> stream := (stream st) \<lparr> decodeNextFrameOut := - 1 \<rparr> \<rparr> else st)"

text \<open>
  The outcome of a call: the exception thrown, \<^verbatim>\<open>false\<close> returned at once because the
  reader has no stream, the value returned with the state of the call at that point, or
  \<open>Unfinished\<close> when the list of answers ends while the loop is still running.
\<close>

datatype outcome =
    Thrown string
  | NoStream
  | Returned bool decode_state
  | Unfinished decode_state

fun decode_loop :: "bool \<Rightarrow> answers list \<Rightarrow> decode_state \<Rightarrow> outcome" where
  "decode_loop loadNearest [] st = Unfinished st"
| "decode_loop loadNearest (a # as) st =
     (let res = decode_iter loadNearest a st; st' = snd res
      in case fst res of
           Continue \<Rightarrow>
             if hasPicture st' then Returned (hasPicture st') (finish st')
             else decode_loop loadNearest as st'
         | Break \<Rightarrow> Returned (hasPicture st') (finish st')
         | ReturnFalse \<Rightarrow> Returned False (store_stream st'))"

text \<open>
  The early-out for a frame out of range: the frame the call goes on with, or the message
  of the exception.
\<close>

definition range_check :: "Stream \<Rightarrow> int \<Rightarrow> bool \<Rightarrow> string + int" where
  "range_check s f loadNearest =
     (if f < 0
      then (if loadNearest then Inr 0 else Inl ''Missing frame'')
      else if f \<ge> frames s
      then (if loadNearest then Inr (frames s - 1) else Inl ''Missing frame'')
      else Inr f)"

text \<open>
  The call from the range check on, for the frame \<open>f\<close> the check lets through. \<open>seek0\<close>
  is the answer to the seek made before the loop, when one is made.
\<close>

definition decode_frame ::
  "FFmpegFile \<Rightarrow> Stream \<Rightarrow> int \<Rightarrow> bool \<Rightarrow> int \<Rightarrow> int \<Rightarrow> answers list \<Rightarrow> outcome" where
  "decode_frame r s f loadNearest maxRetries seek0 as =
     (let st0 = \<lparr> reader = r, stream = s, frame = f,
                  retriesRemaining = max 1 maxRetries,
                  awaitingFirstDecodeAfterSeek = False,
                  lastSeekedFrame = - 1, hasPicture = False,
                  seekLog = [], dtsSwitches = 0, retrySeeks = 0 \<rparr>
      in if f \<noteq> decodeNextFrameOut s
         then
           (let st1 = st0 \<lparr> lastSeekedFrame := f,
                            stream := s \<lparr> decodeNextFrameIn := - 1, decodeNextFrameOut := - 1,
                                          accumDecodeLatency := 0 \<rparr>,
                            awaitingFirstDecodeAfterSeek := True \<rparr>;
                res = seekFrame f seek0 st1
            in if \<not> fst res then Returned False (store_stream (snd res))
               else decode_loop loadNearest as (snd res))
         else decode_loop loadNearest as st0)"

text \<open>\<^verbatim>\<open>FFmpegFile::decode(frame, loadNearest, maxRetries)\<close>.\<close>

definition decode :: "FFmpegFile \<Rightarrow> int \<Rightarrow> bool \<Rightarrow> int \<Rightarrow> int \<Rightarrow> answers list \<Rightarrow> outcome" where
  "decode r f loadNearest maxRetries seek0 as =
     (case streams r of
        [] \<Rightarrow> NoStream
      | s # rest \<Rightarrow>
          (case range_check s f loadNearest of
             Inl msg \<Rightarrow> Thrown msg
           | Inr f' \<Rightarrow> decode_frame r s f' loadNearest maxRetries seek0 as))"

text \<open>The state a call ends in, and the value it returns.\<close>

fun final_state :: "outcome \<Rightarrow> decode_state option" where
  "final_state (Returned b st) = Some st"
| "final_state (Unfinished st) = Some st"
| "final_state (Thrown msg) = None"
| "final_state NoStream = None"

fun returned :: "outcome \<Rightarrow> bool option" where
  "returned (Returned b st) = Some b"
| "returned NoStream = Some False"
| "returned (Unfinished st) = None"
| "returned (Thrown msg) = None"

section \<open>Measures of a call\<close>

text \<open>
  A stream is \<open>stuck\<close> when its frame count has been set to -1 while the next frame in is
  unknown: no packet is read from then on.
\<close>

definition stuck :: "decode_state \<Rightarrow> bool" where
  "stuck st = (frames (stream st) = - 1 \<and> decodeNextFrameIn (stream st) = - 1)"















section \<open>Concrete inputs\<close>


definition no_packets :: probe where
  "no_packets = \<lparr> start_seek_ok = True, start_packets = [], end_packets = [] \<rparr>"

text \<open>Containers with one stream: 8-bit YUV video, 8-bit RGBA video, and no video at all.\<close>

definition example_container :: Container where
  "example_container =
     \<lparr> open_input_error = 0, find_stream_info_error = 0, ctx_duration = 416667,
       metadata = Some [], av_streams = [(example_avstream, no_packets)] \<rparr>"

definition rgba_container :: Container where
  "rgba_container =
     example_container \<lparr> av_streams :=
        [(example_avstream \<lparr> pix_fmt := AV_PIX_FMT_RGBA, nb_components := 4,
                            bits_per_pixel := 32 \<rparr>, no_packets)] \<rparr>"

definition audio_container :: Container where
  "audio_container =
     example_container \<lparr> av_streams :=
        [(example_avstream \<lparr> codec_type_video := False \<rparr>, no_packets)] \<rparr>"

text \<open>A reader with the example stream, and the same reader over a file with metadata.\<close>

definition example_reader :: FFmpegFile where
  "example_reader =
     \<lparr> filename = ''a.mov'', avcontext = None, streams = [example_stream], errorMsg = NoError,
       invalidState = False, data = Some 230400 \<rparr>"

definition with_metadata :: "(string \<times> string) list \<Rightarrow> FFmpegFile" where
  "with_metadata m =
     example_reader \<lparr> avcontext := Some (example_container \<lparr> metadata := Some m \<rparr>) \<rparr>"

definition lower_case_foundry :: "(string \<times> string) list" where
  "lower_case_foundry = [(''uk.co.thefoundry.colorspace'', ''sRGB'')]"


text \<open>
  libswscale builds the context and then refuses the colourspace details; the context built
  for a 320x240 picture in full-range YUV 4:2:0, to be converted to packed RGB.
\<close>

definition failing_sws :: sws_answers where
  "failing_sws = \<lparr> sws_getContext_ok = True, sws_setColorspaceDetails_result = - 1 \<rparr>"

definition built_converter :: SwsContext where
  "built_converter =
     \<lparr> srcFormat = AV_PIX_FMT_YUV420P, srcW = 320, srcH = 240,
       dstFormat = AV_PIX_FMT_RGB24, dstW = 320, dstH = 240 \<rparr>"

text \<open>
  Answers of the libraries to one turn: a packet is read (and \<open>fd\<close> says whether the
  decoder emits a frame), or the end of the file is reached. The packet \<open>no_ts_packet\<close>
  of stream 0 carries neither PTS nor DTS.
\<close>

definition no_ts_packet :: AVPacket where
  "no_ts_packet = \<lparr> pts = AV_NOPTS_VALUE, dts = AV_NOPTS_VALUE, stream_index = 0 \<rparr>"

definition packet_answer :: "AVPacket \<Rightarrow> int \<Rightarrow> answers" where
  "packet_answer p fd =
     \<lparr> read_error = 0, read_packet = p, seek_error = 0, decode_error = 0, frameDecoded = fd,
       codecDelay = 0 \<rparr>"

definition eof_answer :: "int \<Rightarrow> answers" where
  "eof_answer fd = (packet_answer no_ts_packet fd) \<lparr> read_error := AVERROR_EOF \<rparr>"

text \<open>A packet of another stream of the container.\<close>

definition foreign_packet :: AVPacket where
  "foreign_packet = no_ts_packet \<lparr> stream_index := 1 \<rparr>"


definition seeking :: "int \<Rightarrow> int \<Rightarrow> decode_state" where
  "seeking f l =
     \<lparr> reader = example_reader, stream = example_stream, frame = f, retriesRemaining = 1,
       awaitingFirstDecodeAfterSeek = True, lastSeekedFrame = l, hasPicture = False,
       seekLog = [f], dtsSwitches = 0, retrySeeks = 0 \<rparr>"

section \<open>Properties\<close>

lemma sdiv_nonneg_eq_div:
  fixes a b :: int
  assumes "0 \<le> a" "0 < b"
  shows "a sdiv b = a div b"
  using assms by (simp add: signed_divide_int_def sgn_if)

subsection \<open>Round trip of the frame and timestamp mapping\<close>

lemma div_times_le:
  fixes y b :: int
  assumes "0 < b"
  shows "y div b * b \<le> y"
proof -
  have "y = y div b * b + y mod b" by simp
  moreover have "0 \<le> y mod b" using assms by simp
  ultimately show ?thesis by linarith
qed

lemma round_trip_le:
  fixes a b x :: int
  assumes "0 \<le> x" "0 < a" "0 < b"
  shows "((x * a) div b * b) div a \<le> x"
proof -
  have "(x * a) div b * b \<le> x * a"
    using assms by (simp add: div_times_le)
  then have "((x * a) div b * b) div a \<le> (x * a) div a"
    using assms by (intro zdiv_mono1) simp_all
  then show ?thesis using assms by simp
qed

lemma round_trip_eq_iff:
  fixes a b x :: int
  assumes "0 \<le> x" "0 < a" "0 < b"
  shows "((x * a) div b * b) div a = x \<longleftrightarrow> b dvd x * a"
proof
  assume "b dvd x * a"
  then have "(x * a) div b * b = x * a" by simp
  then show "((x * a) div b * b) div a = x" using assms by simp
next
  assume eq: "((x * a) div b * b) div a = x"
  let ?q = "(x * a) div b * b"
  have le: "?q \<le> x * a" using assms by (simp add: div_times_le)
  have "?q div a * a \<le> ?q" using assms by (simp add: div_times_le)
  then have "x * a \<le> ?q" using eq by simp
  then have "?q = x * a" using le by simp
  then show "b dvd x * a" by (metis dvd_triv_right)
qed

lemma round_trip_value:
  assumes "0 < fpsNum s" "0 < fpsDen s"
    "0 < time_base_num (avstream s)" "0 < time_base_den (avstream s)" "0 \<le> f"
  shows "ptsToFrame s (frameToPts s f) =
     ((f * (fpsDen s * time_base_den (avstream s))) div (fpsNum s * time_base_num (avstream s))
        * (fpsNum s * time_base_num (avstream s))) div (fpsDen s * time_base_den (avstream s))"
proof -
  let ?a = "fpsDen s * time_base_den (avstream s)"
  let ?b = "fpsNum s * time_base_num (avstream s)"
  have a: "0 < ?a" and b: "0 < ?b" using assms by simp_all
  have fa: "0 \<le> f * ?a" using assms a by simp
  have q: "0 \<le> (f * ?a) div ?b" using fa b by (simp add: pos_imp_zdiv_nonneg_iff)
  have "ptsToFrame s (frameToPts s f) = (((f * ?a) sdiv ?b) * ?b) sdiv ?a"
    by (simp add: ptsToFrame_def frameToPts_def mult.assoc)
  also have "\<dots> = (((f * ?a) div ?b) * ?b) div ?a"
    using fa a b q by (simp add: sdiv_nonneg_eq_div)
  finally show ?thesis .
qed

text \<open>
  C2, as the spec states it, fails: with ticks of one millisecond and 30000/1001 frames
  per second, frame 1 of a stream of 10 frames maps to tick 33 (33.36 truncated), and tick
  33 maps back to frame 0.
\<close>

theorem frame_pts_round_trip_fails:
  "0 \<le> (1::int) \<and> 1 < frames ntsc_ms_stream
   \<and> 0 < fpsNum ntsc_ms_stream \<and> 0 < fpsDen ntsc_ms_stream
   \<and> 0 < time_base_num (avstream ntsc_ms_stream) \<and> 0 < time_base_den (avstream ntsc_ms_stream)
   \<and> frameToPts ntsc_ms_stream 1 = 33
   \<and> ptsToFrame ntsc_ms_stream (frameToPts ntsc_ms_stream 1) = 0"
  by (simp add: ntsc_ms_stream_def example_stream_def example_avstream_def new_Stream_def
      ptsToFrame_def frameToPts_def signed_divide_int_def)

text \<open>
  C2, amended: for positive frame rate and time base and every frame index \<open>f \<ge> 0\<close>,
  mapping the frame to its timestamp and back never gives a later frame, and it gives
  \<open>f\<close> again exactly when \<open>fps_num * tb_num\<close> divides \<open>f * fps_den * tb_den\<close>, that is
  when frame \<open>f\<close> starts on a whole tick of the time base.
\<close>

theorem frame_pts_round_trip:
  assumes "0 < fpsNum s" "0 < fpsDen s"
    "0 < time_base_num (avstream s)" "0 < time_base_den (avstream s)" "0 \<le> f"
  shows "ptsToFrame s (frameToPts s f) \<le> f \<and>
         (ptsToFrame s (frameToPts s f) = f \<longleftrightarrow>
            (fpsNum s * time_base_num (avstream s)) dvd (f * (fpsDen s * time_base_den (avstream s))))"
  using assms round_trip_value[OF assms] round_trip_le round_trip_eq_iff by simp

theorem frame_pts_round_trip_witness:
  "ptsToFrame example_stream (frameToPts example_stream 7) = 7"
  using frame_pts_round_trip[of example_stream 7]
  by (simp add: example_stream_def example_avstream_def new_Stream_def)

subsection \<open>Frame count from the duration of the container\<close>






subsection \<open>Opening the container\<close>

lemmas container_defs = example_container_def rgba_container_def audio_container_def
  example_avstream_def new_Stream_def no_packets_def

lemma open_loop_flag: "fst (open_loop d i es u r) = u"
  by (induction es arbitrary: i r) (auto split: option.splits simp: Let_def)

lemma open_loop_errorMsg: "errorMsg (snd (open_loop d i es u r)) = errorMsg r"
  by (induction es arbitrary: i r) (auto split: option.splits simp: Let_def)







text \<open>
  C10: when the container was opened and its stream information read, and the loop over
  its streams registers no stream, the stored error message is "unable to find video
  stream"; the flag \<^verbatim>\<open>unsuported_codec\<close> comes out of the loop as it went in, false, and
  no file at all leaves the message "unsupported codec..." in the reader.
\<close>

theorem no_stream_error_message:
  "(name \<noteq> [] \<and> 0 \<le> open_input_error c \<and> 0 \<le> find_stream_info_error c
      \<and> streams (open_file name c) = []
     \<longrightarrow> errorMsg (open_file name c) = ErrorText ''unable to find video stream'')
   \<and> fst (open_loop d i es False r) = False
   \<and> errorMsg (open_file name c) \<noteq> ErrorText ''unsupported codec...''"
  by (auto simp: open_file_def Let_def open_loop_flag open_loop_errorMsg setError_def
      setInternalError_def)

theorem no_stream_error_message_witness:
  "streams (open_file ''a.mov'' audio_container) = [] \<and>
   errorMsg (open_file ''a.mov'' audio_container) = ErrorText ''unable to find video stream''"
  using no_stream_error_message[of "''a.mov''" audio_container]
  by (simp add: container_defs open_file_def open_stream_def Let_def setError_def)

subsection \<open>The range check of decode\<close>

lemma decode_loop_not_Thrown: "decode_loop ln as st \<noteq> Thrown msg"
proof (induction as arbitrary: st)
  case Nil
  show ?case by simp
next
  case (Cons a as)
  show ?case
    by (cases "fst (decode_iter ln a st)") (simp_all add: Let_def Cons.IH)
qed

lemma decode_frame_not_Thrown: "decode_frame r s f ln m seek0 as \<noteq> Thrown msg"
  unfolding decode_frame_def Let_def
  by (simp add: decode_loop_not_Thrown)

text \<open>
  C1: on a reader with at least one stream, a call for a frame outside
  \<open>[0, total_frames)\<close> goes on, when \<open>load_nearest\<close> is set, as the call for frame 0
  (if the frame is negative) or for frame \<open>total_frames - 1\<close> (otherwise), and throws
  "Missing frame" when \<open>load_nearest\<close> is not set; and \<^verbatim>\<open>decode\<close> throws nothing else:
  whenever it throws, the message is "Missing frame", \<open>load_nearest\<close> is not set and the
  frame is out of range.
\<close>

theorem decode_out_of_range:
  assumes "streams r = s # rest"
  shows "(f < 0 \<or> frames s \<le> f \<longrightarrow>
           (if ln
            then decode r f ln m seek0 as
                   = decode_frame r s (if f < 0 then 0 else frames s - 1) ln m seek0 as
            else decode r f ln m seek0 as = Thrown ''Missing frame''))
       \<and> (decode r f ln m seek0 as = Thrown msg \<longrightarrow>
            msg = ''Missing frame'' \<and> \<not> ln \<and> (f < 0 \<or> frames s \<le> f))"
proof -
  have d: "decode r f ln m seek0 as =
      (case range_check s f ln of Inl e \<Rightarrow> Thrown e
       | Inr f' \<Rightarrow> decode_frame r s f' ln m seek0 as)"
    using assms by (simp add: decode_def)
  have rc: "range_check s f ln =
      (if f < 0 \<or> frames s \<le> f
       then (if ln then Inr (if f < 0 then 0 else frames s - 1) else Inl ''Missing frame'')
       else Inr f)"
    by (simp add: range_check_def)
  show ?thesis
  proof (cases "f < 0 \<or> frames s \<le> f")
    case True
    then have "range_check s f ln =
        (if ln then Inr (if f < 0 then 0 else frames s - 1) else Inl ''Missing frame'')"
      using rc by simp
    then show ?thesis using True d by (cases ln) (simp_all add: decode_frame_not_Thrown)
  next
    case False
    then have "range_check s f ln = Inr f" using rc by simp
    then have "decode r f ln m seek0 as = decode_frame r s f ln m seek0 as" using d by simp
    then show ?thesis using False by (simp add: decode_frame_not_Thrown)
  qed
qed

theorem decode_out_of_range_witness:
  "decode example_reader 10 False 1 0 [] = Thrown ''Missing frame''
   \<and> decode example_reader 10 True 1 0 [] = decode_frame example_reader example_stream 9 True 1 0 []"
proof -
  have a: "streams example_reader = [example_stream]" by (simp add: example_reader_def)
  have b: "frames example_stream = 10" by (simp add: example_stream_def)
  have c: "(10::int) < 0 \<or> frames example_stream \<le> 10" using b by simp
  have "decode example_reader 10 False 1 0 [] = Thrown ''Missing frame''"
    using decode_out_of_range[OF a, of 10 False 1 0 "[]" "[]"] c by simp
  moreover have "decode example_reader 10 True 1 0 []
      = decode_frame example_reader example_stream 9 True 1 0 []"
    using decode_out_of_range[OF a, of 10 True 1 0 "[]" "[]"] c b by simp
  ultimately show ?thesis by simp
qed

subsection \<open>Failure of the colourspace configuration\<close>

text \<open>
  C7, as the spec states it, fails: when \<^verbatim>\<open>sws_setColorspaceDetails\<close> reports failure and
  assertions are compiled out, \<^verbatim>\<open>getConvertCtx\<close> returns the converter it has just built
  and leaves it in the cache; nothing resets it to null.
\<close>

theorem getConvertCtx_failure_keeps_converter:
  "isYUV example_stream \<and> convertCtx example_stream = None
   \<and> sws_setColorspaceDetails_result failing_sws = - 1
   \<and> getConvertCtx True failing_sws AV_PIX_FMT_YUVJ420P 320 240 0 AV_PIX_FMT_RGB24 320 240
         example_stream
       = Value (Some built_converter, example_stream \<lparr> convertCtx := Some built_converter \<rparr>)
   \<and> Some built_converter \<noteq> None"
  by (simp add: getConvertCtx_def failing_sws_def example_stream_def new_Stream_def Let_def
      built_converter_def normalise_pix_fmt_def)

text \<open>
  C7, amended: when the configuration call reports failure for a YUV source whose
  converter had to be built, \<^verbatim>\<open>getConvertCtx\<close> fails its assertion (the process aborts)
  in a build with assertions; in a build without them it returns the new converter and
  keeps it cached, and every later call returns that same converter without building or
  configuring one.
\<close>

theorem getConvertCtx_failure:
  assumes "isYUV s" "convertCtx s = None \<or> resetConvertCtx s" "sws_getContext_ok ans"
    "sws_setColorspaceDetails_result ans = - 1"
  shows "getConvertCtx False ans sf sw sh sr df dw dh s = AssertionFailed
       \<and> (\<exists>c s'. getConvertCtx True ans sf sw sh sr df dw dh s = Value (Some c, s')
             \<and> convertCtx s' = Some c
             \<and> (\<forall>nd ans' sf' sw' sh' sr' df' dw' dh'.
                   getConvertCtx nd ans' sf' sw' sh' sr' df' dw' dh' s' = Value (Some c, s')))"
  using assms by (auto simp: getConvertCtx_def Let_def)

theorem getConvertCtx_failure_witness:
  "getConvertCtx False failing_sws AV_PIX_FMT_YUV420P 320 240 0 AV_PIX_FMT_RGB24 320 240
      example_stream = AssertionFailed"
  using getConvertCtx_failure[of example_stream failing_sws AV_PIX_FMT_YUV420P 320 240 0
      AV_PIX_FMT_RGB24 320 240]
  by (simp add: failing_sws_def example_stream_def new_Stream_def)

subsection \<open>Source colourspace\<close>

















text \<open>
  Were the look-up case-sensitive, as the comment in the source takes it to be, the file
  with the lower-case key alone would fall through to the default: the result of the
  second look-up is never used.
\<close>

lemma getColorspace_case_sensitive_lookup:
  "getColorspace True (with_metadata lower_case_foundry) = ''Gamma2.2''"
  by (simp add: getColorspace_def with_metadata_def lower_case_foundry_def av_dict_get_def
      key_matches_def reader_isYUV_def example_reader_def example_stream_def)

subsection \<open>Resynchronisation after a seek\<close>

lemma seekFrame_fields:
  "stream (snd (seekFrame f err st)) = stream st"
  "frame (snd (seekFrame f err st)) = frame st"
  "lastSeekedFrame (snd (seekFrame f err st)) = lastSeekedFrame st"
  "retriesRemaining (snd (seekFrame f err st)) = retriesRemaining st"
  "awaitingFirstDecodeAfterSeek (snd (seekFrame f err st)) = awaitingFirstDecodeAfterSeek st"
  "hasPicture (snd (seekFrame f err st)) = hasPicture st"
  "seekLog (snd (seekFrame f err st)) = f # seekLog st"
  "dtsSwitches (snd (seekFrame f err st)) = dtsSwitches st"
  "retrySeeks (snd (seekFrame f err st)) = retrySeeks st"
  "fst (seekFrame f err st) = (\<not> err < 0)"
  by (simp_all add: seekFrame_def Let_def)

lemma seekFrame_errorMsg:
  "\<not> err < 0 \<Longrightarrow> reader (snd (seekFrame f err st)) = reader st"
  by (simp add: seekFrame_def Let_def)











subsection \<open>End of file before the first landing\<close>

lemma stall_seek_fields:
  "frames (stream (snd (stall_seek a t st))) = frames (stream st)"
  "decodeNextFrameIn (stream (snd (stall_seek a t st))) = - 1"
  "frame (snd (stall_seek a t st)) = frame st"
  by (simp_all add: stall_seek_def Let_def seekFrame_fields)

lemma use_retry_fields:
  "stream (use_retry st) = stream st" "frame (use_retry st) = frame st"
  by (simp_all add: use_retry_def)

lemma stall_recovery_stuck:
  "stuck st \<Longrightarrow> stuck (snd (stall_recovery a st))"
  "frame (snd (stall_recovery a st)) = frame st"
  by (simp_all add: stall_recovery_def stuck_def stall_seek_fields use_retry_fields)

lemma after_decode_stuck:
  "stuck st \<Longrightarrow> stuck (snd (after_decode a att fd st))"
  "frame (snd (after_decode a att fd st)) = frame st"
proof -
  show "frame (snd (after_decode a att fd st)) = frame st"
    by (simp add: after_decode_def Let_def stall_recovery_stuck)
  assume s: "stuck st"
  have "stuck (st \<lparr> stream := (stream st)
                          \<lparr> accumDecodeLatency := accumDecodeLatency (stream st) + 1 \<rparr> \<rparr>)"
    using s by (simp add: stuck_def)
  from stall_recovery_stuck(1)[OF this] s
  show "stuck (snd (after_decode a att fd st))"
    by (simp add: after_decode_def Let_def) (simp add: stuck_def)
qed

lemma decode_iter_stuck:
  assumes "stuck st"
  shows "stuck (snd (decode_iter ln a st))" "frame (snd (decode_iter ln a st)) = frame st"
proof -
  have nr: "\<not> decodeNextFrameIn (stream st) < frames (stream st)"
    using assms by (simp add: stuck_def)
  have "stuck (st \<lparr> reader := setInternalError (decode_error a)
                                    ''FFmpeg Reader failed to decode frame: '' (reader st) \<rparr>)"
    using assms by (simp add: stuck_def)
  then show "stuck (snd (decode_iter ln a st))"
    using nr after_decode_stuck(1)[OF assms] by (simp add: decode_iter_def Let_def)
  show "frame (snd (decode_iter ln a st)) = frame st"
    using nr by (simp add: decode_iter_def Let_def after_decode_stuck(2))
qed

lemma finish_stuck:
  "stuck st \<Longrightarrow> stuck (finish st)" "frame (finish st) = frame st"
  "stuck st \<Longrightarrow> stuck (store_stream st)" "frame (store_stream st) = frame st"
  by (simp_all add: finish_def store_stream_def stuck_def)

lemma decode_loop_final: "\<exists>st'. final_state (decode_loop ln as st) = Some st'"
proof (induction as arbitrary: st)
  case Nil
  show ?case by simp
next
  case (Cons a as)
  show ?case
    by (cases "fst (decode_iter ln a st)") (simp_all add: Let_def Cons.IH)
qed

lemma decode_loop_stuck:
  assumes "stuck st" "final_state (decode_loop ln as st) = Some st'"
  shows "stuck st' \<and> frame st' = frame st"
  using assms
proof (induction as arbitrary: st)
  case Nil
  then show ?case by simp
next
  case (Cons a as)
  let ?st = "snd (decode_iter ln a st)"
  have s: "stuck ?st" and f: "frame ?st = frame st"
    using decode_iter_stuck[OF Cons.prems(1)] by simp_all
  show ?case
  proof (cases "fst (decode_iter ln a st)")
    case Continue
    show ?thesis
    proof (cases "hasPicture ?st")
      case True
      then have "st' = finish ?st" using Cons.prems(2) Continue by (simp add: Let_def)
      then show ?thesis using s f finish_stuck by simp
    next
      case False
      then have "final_state (decode_loop ln as ?st) = Some st'"
        using Cons.prems(2) Continue by (simp add: Let_def)
      from Cons.IH[OF s this] f show ?thesis by simp
    qed
  next
    case Break
    then have "st' = finish ?st" using Cons.prems(2) by (simp add: Let_def)
    then show ?thesis using s f finish_stuck by simp
  next
    case ReturnFalse
    then have "st' = store_stream ?st" using Cons.prems(2) by (simp add: Let_def)
    then show ?thesis using s f finish_stuck by simp
  qed
qed

lemma eof_before_landing_iter:
  assumes "decodeNextFrameIn (stream st) = - 1" "- 1 < frames (stream st)"
    "read_error a = AVERROR_EOF"
  shows "stuck (snd (decode_iter ln a st))"
    "ln \<Longrightarrow> frame (snd (decode_iter ln a st)) = - 2"
    "ln \<Longrightarrow> lastSeekedFrame (snd (decode_iter ln a st)) = - 2"
    "ln \<Longrightarrow> seekLog (snd (decode_iter ln a st)) = - 2 # seekLog st"
    "\<not> ln \<Longrightarrow> frame (snd (decode_iter ln a st)) = frame st"
    "fst (decode_iter ln a st) \<noteq> Break"
  using assms
  by (simp_all add: decode_iter_def Let_def stuck_def seekFrame_fields)

text \<open>
  C9: when the end of the file is read while the next frame in is still -1 (and the frame
  count is not negative yet), the turn sets the frame count to -1; with \<open>load_nearest\<close>
  the requested frame becomes \<open>total_frames - 1 = -2\<close> and the seek goes to frame -2. The
  frame count is -1 for the rest of the call, so no frame index \<open>x\<close> satisfies
  \<open>0 \<le> x < total_frames\<close> when the call returns, with or without a picture.
\<close>

theorem eof_before_landing:
  assumes "decodeNextFrameIn (stream st) = - 1" "- 1 < frames (stream st)"
    "read_error a = AVERROR_EOF"
    "final_state (decode_loop ln (a # as) st) = Some st'"
  shows "frames (stream (snd (decode_iter ln a st))) = - 1
       \<and> (ln \<longrightarrow> frame (snd (decode_iter ln a st)) = - 2
                \<and> seekLog (snd (decode_iter ln a st)) = - 2 # seekLog st)
       \<and> frames (stream st') = - 1
       \<and> (\<forall>x. \<not> (0 \<le> x \<and> x < frames (stream st')))
       \<and> (ln \<longrightarrow> frame st' = frames (stream st') - 1 \<and> frame st' = - 2)"
proof -
  let ?st = "snd (decode_iter ln a st)"
  note it = eof_before_landing_iter[OF assms(1-3), of ln]
  have s: "stuck ?st" by (rule it(1))
  have "stuck st' \<and> frame st' = frame ?st"
  proof (cases "fst (decode_iter ln a st)")
    case Continue
    show ?thesis
    proof (cases "hasPicture ?st")
      case True
      then have "st' = finish ?st" using assms(4) Continue by (simp add: Let_def)
      then show ?thesis using s finish_stuck by simp
    next
      case False
      then have "final_state (decode_loop ln as ?st) = Some st'"
        using assms(4) Continue by (simp add: Let_def)
      from decode_loop_stuck[OF s this] show ?thesis .
    qed
  next
    case Break
    then show ?thesis using it(6) by simp
  next
    case ReturnFalse
    then have "st' = store_stream ?st" using assms(4) by (simp add: Let_def)
    then show ?thesis using s finish_stuck by simp
  qed
  then show ?thesis using s it(2,4) by (auto simp add: stuck_def)
qed

lemma early_eof_run:
  "returned (decode_loop False [eof_answer 0, eof_answer 1, eof_answer 1] (seeking 0 0)) = Some True"
  "final_state (decode_loop True [eof_answer 0, eof_answer 0] (seeking 0 0)) \<noteq> None"
  "map_option seekLog (final_state (decode_loop True [eof_answer 0, eof_answer 0] (seeking 0 0)))
     = Some [- 2, - 2, 0]"
  "final_state (decode_loop False [eof_answer 0, eof_answer 1, eof_answer 1] (seeking 0 0)) \<noteq> None"
  by code_simp+

theorem eof_before_landing_witness:
  "map_option (\<lambda>st. (frames (stream st), frame st))
       (final_state (decode_loop True [eof_answer 0, eof_answer 0] (seeking 0 0)))
     = Some (- 1, - 2)
   \<and> returned (decode_loop False [eof_answer 0, eof_answer 1, eof_answer 1] (seeking 0 0))
     = Some True
   \<and> map_option (\<lambda>st. frames (stream st))
       (final_state (decode_loop False [eof_answer 0, eof_answer 1, eof_answer 1] (seeking 0 0)))
     = Some (- 1)"
proof -
  have h: "decodeNextFrameIn (stream (seeking 0 0)) = - 1" "- 1 < frames (stream (seeking 0 0))"
    "read_error (eof_answer 0) = AVERROR_EOF"
    by (simp_all add: seeking_def example_stream_def new_Stream_def eof_answer_def)
  obtain st1 where f1:
    "final_state (decode_loop True (eof_answer 0 # [eof_answer 0]) (seeking 0 0)) = Some st1"
    using early_eof_run(2) by auto
  obtain st2 where f2:
    "final_state (decode_loop False (eof_answer 0 # [eof_answer 1, eof_answer 1]) (seeking 0 0))
       = Some st2"
    using early_eof_run(4) by auto
  from eof_before_landing[OF h f1] eof_before_landing[OF h f2] f1 f2 early_eof_run(1)
  show ?thesis by simp
qed

subsection \<open>The seeks of a call\<close>














lemma after_decode_frames:
  "frames (stream (snd (after_decode a att fd st))) = frames (stream st)"
  by (simp add: after_decode_def Let_def stall_recovery_def stall_seek_def seekFrame_fields
      use_retry_def)









































text \<open>
  The loop has no bound of its own on the packets of other streams it reads: as long as
  the container delivers them the call does not return.
\<close>

lemma foreign_packets_never_end:
  "decode_loop ln (replicate n (packet_answer foreign_packet 0)) (seeking f l)
     = Unfinished (seeking f l)"
proof (induction n)
  case 0
  show ?case by simp
next
  case (Suc n)
  have "decode_iter ln (packet_answer foreign_packet 0) (seeking f l) = (Continue, seeking f l)"
    by (simp add: decode_iter_def Let_def after_decode_def seeking_def example_stream_def
        new_Stream_def packet_answer_def foreign_packet_def no_ts_packet_def AVERROR_EOF_def)
  then show ?case using Suc by (simp add: Let_def seeking_def)
qed




end
